theory Spec2Isabelle
  imports Complex_Main "HOL-Library.Multiset" "HOL-Library.Sublist"
begin

chapter \<open>The model\<close>

section \<open>Pair Sampler: \<open>create_siamese_pairs\<close> (scripts/train\_authenticity\_verifier.py)\<close>

text \<open>
  The sampler draws from Python's global \<open>random\<close> module. The model threads an explicit
  random source through the three loops: \<open>rnd :: nat \<Rightarrow> nat\<close> is the sequence of raw draws
  and the third component of the loop state is the number of draws consumed so far. Every
  result that \<open>random.choice\<close> and \<open>random.sample(_, 2)\<close> can produce is produced by some
  \<open>rnd\<close>, and all theorems quantify over \<open>rnd\<close>.

  Pool elements are the image paths; \<open>str(img)\<close> is the path's text, so the elements are
  kept as they are. A pair is the two-element list \<open>[str(img1), str(img2)]\<close> of the source.
  \<open>num_pairs\<close> is a Python \<open>int\<close>; \<open>//\<close> is floor division (\<open>div\<close> on \<open>int\<close>) and
  \<open>range(k)\<close> runs \<open>nat k\<close> times (no iteration when \<open>k\<close> is negative).
\<close>

definition random_choice :: "nat \<Rightarrow> 'a list \<Rightarrow> 'a" where
  "random_choice r xs = xs ! (r mod length xs)"

definition random_sample2 :: "nat \<Rightarrow> nat \<Rightarrow> 'a list \<Rightarrow> 'a \<times> 'a" where
  "random_sample2 r1 r2 xs =
     (let i = r1 mod length xs;
          j0 = r2 mod (length xs - 1);
          j = (if j0 < i then j0 else j0 + 1)
      in (xs ! i, xs ! j))"

text \<open>
  Lines 66-70 and 81-85: the two same-pool loops differ only in the pool and in the label
  they append, which are parameters here.
\<close>

fun same_pool_pairs ::
  "(nat \<Rightarrow> nat) \<Rightarrow> 'a list \<Rightarrow> int \<Rightarrow> nat \<Rightarrow> 'a list list \<times> int list \<times> nat
     \<Rightarrow> 'a list list \<times> int list \<times> nat" where
  "same_pool_pairs rnd pool lbl 0 st = st"
| "same_pool_pairs rnd pool lbl (Suc n) (pairs, labels, k) =
     same_pool_pairs rnd pool lbl n
       (if length pool \<ge> 2
        then (case random_sample2 (rnd k) (rnd (k + 1)) pool of
                (img1, img2) \<Rightarrow> (pairs @ [[img1, img2]], labels @ [lbl], k + 2))
        else (pairs, labels, k))"

text \<open>Lines 73-78: one authentic and one counterfeit item per iteration, label 0.\<close>

fun cross_pool_pairs ::
  "(nat \<Rightarrow> nat) \<Rightarrow> 'a list \<Rightarrow> 'a list \<Rightarrow> nat \<Rightarrow> 'a list list \<times> int list \<times> nat
     \<Rightarrow> 'a list list \<times> int list \<times> nat" where
  "cross_pool_pairs rnd authentic counterfeit 0 st = st"
| "cross_pool_pairs rnd authentic counterfeit (Suc n) (pairs, labels, k) =
     cross_pool_pairs rnd authentic counterfeit n
       (if length authentic > 0 \<and> length counterfeit > 0
        then (let img1 = random_choice (rnd k) authentic;
                  img2 = random_choice (rnd (k + 1)) counterfeit
              in (pairs @ [[img1, img2]], labels @ [0], k + 2))
        else (pairs, labels, k))"

definition create_siamese_pairs ::
  "(nat \<Rightarrow> nat) \<Rightarrow> 'a list \<Rightarrow> 'a list \<Rightarrow> int \<Rightarrow> 'a list list \<times> int list" where
  "create_siamese_pairs rnd authentic_images counterfeit_images num_pairs =
     (let st1 = same_pool_pairs rnd authentic_images 1 (nat (num_pairs div 4)) ([], [], 0);
          st2 = cross_pool_pairs rnd authentic_images counterfeit_images
                  (nat (num_pairs div 2)) st1;
          st3 = same_pool_pairs rnd counterfeit_images 0 (nat (num_pairs div 4)) st2
      in (fst st3, fst (snd st3)))"

text \<open>The number of pairs each batch contributes, as the guards of the three loops decide it.\<close>

definition batch_same :: "'a list \<Rightarrow> int \<Rightarrow> nat" where
  "batch_same pool num_pairs = (if length pool \<ge> 2 then nat (num_pairs div 4) else 0)"

definition batch_cross :: "'a list \<Rightarrow> 'a list \<Rightarrow> int \<Rightarrow> nat" where
  "batch_cross authentic counterfeit num_pairs =
     (if length authentic > 0 \<and> length counterfeit > 0 then nat (num_pairs div 2) else 0)"

section \<open>Partition Engine: \<open>split_dataset\<close> (utils/dataset\_preparation.py)\<close>

text \<open>
  Paths are lists of components (\<open>a / b\<close> of \<open>pathlib\<close> appends a component).

  The ratios are Python floats. They are modelled as exact rationals: \<open>n_total * train_ratio\<close>
  is the exact product and the tolerance \<open>1e-6\<close> is \<open>1 / 1000000\<close>; rounding of the float
  operations and the values \<open>nan\<close> and \<open>inf\<close> are outside the model. \<open>int(x)\<close> truncates
  towards zero. A slice \<open>xs[lo:hi]\<close> clamps its bounds to the list and counts a negative
  bound from the end, as Python does; it never raises.
\<close>

type_synonym path = "string list"













section \<open>Prerequisite Checker: \<open>check_prerequisites\<close> (train\_all\_models.py)\<close>

text \<open>
  The check only reads the filesystem: \<open>path_exists p\<close> is the answer of \<open>p.exists()\<close>.
  It returns its boolean together with the records it sends to the logger, in order. Each
  of the three loops over required items returns \<open>False\<close> at the first missing item
  (\<open>first_missing\<close>), after logging one error for it; the loop over the data directories
  only logs warnings.
\<close>

datatype log_level = INFO | WARNING | ERROR

fun str_path :: "path \<Rightarrow> string" where
  "str_path [] = ''.''"
| "str_path [c] = c"
| "str_path (c # d # cs) = c @ ''/'' @ str_path (d # cs)"

definition scripts_dir :: "path \<Rightarrow> path" where
  "scripts_dir proj_root = proj_root @ [''training'', ''scripts'']"

definition configs_dir :: "path \<Rightarrow> path" where
  "configs_dir proj_root = proj_root @ [''training'', ''configs'']"

definition data_dir :: "path \<Rightarrow> path" where
  "data_dir proj_root = proj_root @ [''data'']"

definition required_dirs :: "path \<Rightarrow> path list" where
  "required_dirs proj_root = [scripts_dir proj_root, configs_dir proj_root, data_dir proj_root]"

definition required_scripts :: "path \<Rightarrow> path list" where
  "required_scripts proj_root = map (\<lambda>script. scripts_dir proj_root @ [script])
     [''train_drug_classifier.py'', ''train_authenticity_verifier.py'', ''train_pill_detector.py'']"

definition required_configs :: "path \<Rightarrow> path list" where
  "required_configs proj_root = map (\<lambda>config. configs_dir proj_root @ [config])
     [''drug_classifier_config.json'', ''authenticity_config.json'', ''pill_detection_config.json'']"

definition data_dirs :: "path \<Rightarrow> path list" where
  "data_dirs proj_root =
     [data_dir proj_root @ [''pharmaceutical_images'', ''authentic''],
      data_dir proj_root @ [''pharmaceutical_images'', ''counterfeit'']]"

fun first_missing :: "(path \<Rightarrow> bool) \<Rightarrow> path list \<Rightarrow> path option" where
  "first_missing path_exists [] = None"
| "first_missing path_exists (p # ps) =
     (if \<not> path_exists p then Some p else first_missing path_exists ps)"

definition data_warnings :: "(path \<Rightarrow> bool) \<Rightarrow> path \<Rightarrow> (log_level \<times> string) list" where
  "data_warnings path_exists d =
     (if \<not> path_exists d
      then [(WARNING, ''Data directory missing: '' @ str_path d),
            (WARNING, ''Training may fail without proper data setup'')]
      else [])"

definition check_prerequisites ::
  "(path \<Rightarrow> bool) \<Rightarrow> path \<Rightarrow> bool \<times> (log_level \<times> string) list" where
  "check_prerequisites path_exists proj_root =
     (let log0 = [(INFO, ''Checking training prerequisites...'')] in
      case first_missing path_exists (required_dirs proj_root) of
        Some directory \<Rightarrow>
          (False, log0 @ [(ERROR, ''Required directory missing: '' @ str_path directory)])
      | None \<Rightarrow>
      (case first_missing path_exists (required_scripts proj_root) of
        Some script_path \<Rightarrow>
          (False, log0 @ [(ERROR, ''Required training script missing: '' @ str_path script_path)])
      | None \<Rightarrow>
      (case first_missing path_exists (required_configs proj_root) of
        Some config_path \<Rightarrow>
          (False, log0 @ [(ERROR, ''Required config file missing: '' @ str_path config_path)])
      | None \<Rightarrow>
          (True, log0 @ concat (map (data_warnings path_exists) (data_dirs proj_root))
                 @ [(INFO, [CHR 0xE2, CHR 0x9C, CHR 0x85] @ '' Prerequisites check completed'')]))))"

text \<open>
  All required items in the order in which they are checked, and the messages of one level
  in a result.
\<close>

definition required_paths :: "path \<Rightarrow> path list" where
  "required_paths proj_root =
     required_dirs proj_root @ required_scripts proj_root @ required_configs proj_root"

definition errors_logged :: "bool \<times> (log_level \<times> string) list \<Rightarrow> string list" where
  "errors_logged res = map snd (filter (\<lambda>r. fst r = ERROR) (snd res))"

definition warnings_logged :: "bool \<times> (log_level \<times> string) list \<Rightarrow> string list" where
  "warnings_logged res = map snd (filter (\<lambda>r. fst r = WARNING) (snd res))"

section \<open>Orchestrator and Job Runner (train\_all\_models.py)\<close>

text \<open>
  The status strings \<open>'pending'\<close>, \<open>'running'\<close>, \<open>'completed'\<close>, \<open>'failed'\<close> are the
  only values ever stored under \<open>'status'\<close>; they form the type \<open>job_status\<close>. A
  \<open>datetime\<close> is represented by its ISO-8601 text.

  \<open>py_exc\<close> separates what \<open>except Exception\<close> catches from what it lets through:
  \<open>Exception msg\<close> is an instance of \<open>Exception\<close> or of a subclass, with \<open>str(e) = msg\<close>;
  \<open>KeyError key\<close> is the subclass raised by a failed dictionary lookup;
  \<open>BaseException msg\<close> is an exception outside \<open>Exception\<close> (\<open>KeyboardInterrupt\<close>,
  \<open>SystemExit\<close>).

  A \<open>job_run\<close> is what the outside world does during one call of \<open>train_model\<close>: the two
  clock readings, whether \<open>mkdir\<close>, \<open>Popen\<close> or \<open>open\<close> raise, the results of
  \<open>readline\<close> with the clock reading taken when each is written, an exception raised
  after these lines while streaming or waiting, and the exit code.

  A \<open>session\<close> is the orchestrator object together with the files it writes.
  \<open>runs\<close> counts the calls of \<open>train_model\<close>; the \<open>n\<close>-th call meets the environment
  \<open>world n\<close>. \<open>history\<close> records every assignment to a \<open>'status'\<close> entry, in order; it
  is instrumentation for stating how statuses change over time and is never read by the
  model. Messages sent to the logger by these two functions are not modelled.
\<close>

datatype job_status = pending | running | completed | failed

type_synonym datetime = string

record status_entry =
  status :: job_status
  start_time :: "datetime option"
  end_time :: "datetime option"
  error :: "string option"

datatype py_exc = Exception string | KeyError string | BaseException string

fun is_Exception :: "py_exc \<Rightarrow> bool" where
  "is_Exception (Exception msg) = True"
| "is_Exception (KeyError key) = True"
| "is_Exception (BaseException msg) = False"

fun str_exc :: "py_exc \<Rightarrow> string" where
  "str_exc (Exception msg) = msg"
| "str_exc (KeyError key) = [CHR 0x27] @ key @ [CHR 0x27]"
| "str_exc (BaseException msg) = msg"

record job_run =
  now_start :: datetime
  mkdir_raises :: "py_exc option"
  popen_raises :: "py_exc option"
  open_raises :: "py_exc option"
  readlines :: "(string \<times> datetime) list"
  stream_raises :: "py_exc option"
  returncode :: int
  now_end :: datetime

record session =
  project_root :: path
  training_status :: "string \<rightharpoonup> status_entry"
  files :: "path \<rightharpoonup> string"
  runs :: nat
  history :: "(string \<times> job_status) list"

text \<open>\<open>__init__\<close>: the three known jobs, all pending.\<close>

definition new_session :: "path \<Rightarrow> (path \<rightharpoonup> string) \<Rightarrow> session" where
  "new_session proj_root fs =
     \<lparr>project_root = proj_root,
      training_status =
        [''drug_classifier'' \<mapsto> \<lparr>status = pending, start_time = None, end_time = None, error = None\<rparr>,
         ''authenticity_verifier'' \<mapsto> \<lparr>status = pending, start_time = None, end_time = None, error = None\<rparr>,
         ''pill_detector'' \<mapsto> \<lparr>status = pending, start_time = None, end_time = None, error = None\<rparr>],
      files = fs, runs = 0, history = []\<rparr>"

definition update_entry :: "string \<Rightarrow> (status_entry \<Rightarrow> status_entry) \<Rightarrow> session \<Rightarrow> session" where
  "update_entry model_name f s =
     (case training_status s model_name of
        None \<Rightarrow> s
      | Some e \<Rightarrow> s\<lparr>training_status := (training_status s)(model_name \<mapsto> f e)\<rparr>)"

definition set_status :: "string \<Rightarrow> job_status \<Rightarrow> session \<Rightarrow> session" where
  "set_status model_name st s =
     (update_entry model_name (\<lambda>e. e\<lparr>status := st\<rparr>) s)
       \<lparr>history := history s @ [(model_name, st)]\<rparr>"

text \<open>
  \<open>str.strip()\<close> on the ASCII whitespace characters (strings are byte strings here),
  and the decimal text of an integer as an f-string prints it.
\<close>

definition py_isspace :: "char \<Rightarrow> bool" where
  "py_isspace c = (of_char c \<in> {9, 10, 11, 12, 13, 28, 29, 30, 31, 32 :: nat})"

definition py_strip :: "string \<Rightarrow> string" where
  "py_strip s = rev (dropWhile py_isspace (rev (dropWhile py_isspace s)))"

definition digit_char :: "nat \<Rightarrow> char" where
  "digit_char d = ''0123456789'' ! d"

function show_nat :: "nat \<Rightarrow> string" where
  "show_nat n = (if n < 10 then [digit_char n] else show_nat (n div 10) @ [digit_char (n mod 10)])"
  by pat_completeness auto
termination
  by (relation "measure (\<lambda>n. n)") auto

definition show_int :: "int \<Rightarrow> string" where
  "show_int i = (if i < 0 then ''-'' @ show_nat (nat (- i)) else show_nat (nat i))"

text \<open>
  Lines 150-156. The file is opened with mode \<open>'w'\<close>, so its content starts empty;
  \<open>iter(readline, '')\<close> stops at the first empty result; every other line is stripped
  and written as \<open>now - line\<close> followed by the two characters backslash and \<open>n\<close> (the
  source escapes the backslash).
\<close>

definition log_entry :: "string \<times> datetime \<Rightarrow> string" where
  "log_entry lt = (case lt of (line, now) \<Rightarrow> now @ '' - '' @ py_strip line @ [CHR 0x5C, CHR ''n''])"

fun stream_lines :: "(string \<times> datetime) list \<Rightarrow> string \<Rightarrow> string" where
  "stream_lines [] content = content"
| "stream_lines ((line, now) # rest) content =
     (if line = [] then content
      else stream_lines rest (content @ log_entry (line, now)))"

definition log_file_path :: "path \<Rightarrow> string \<Rightarrow> path" where
  "log_file_path proj_root model_name = proj_root @ [''models'', model_name, model_name @ ''_training.log'']"

text \<open>Lines 122-158, the body of the \<open>try\<close> up to \<open>process.wait()\<close>.\<close>

definition run_subprocess :: "job_run \<Rightarrow> string \<Rightarrow> session \<Rightarrow> (py_exc + int) \<times> session" where
  "run_subprocess env model_name s =
     (case mkdir_raises env of Some e \<Rightarrow> (Inl e, s) | None \<Rightarrow>
      (case popen_raises env of Some e \<Rightarrow> (Inl e, s) | None \<Rightarrow>
       (case open_raises env of Some e \<Rightarrow> (Inl e, s) | None \<Rightarrow>
        (let s' = s\<lparr>files := (files s)(log_file_path (project_root s) model_name
                                    \<mapsto> stream_lines (readlines env) [])\<rparr>
         in (case stream_raises env of Some e \<Rightarrow> (Inl e, s')
             | None \<Rightarrow> (Inr (returncode env), s'))))))"

text \<open>
  Lines 114-177. The lookup of line 118 is outside the \<open>try\<close>: an unknown name raises
  \<open>KeyError\<close> to the caller. \<open>finally\<close> sets \<open>end_time\<close> on every path out of the
  \<open>try\<close>, also when an exception that is not an \<open>Exception\<close> propagates.
\<close>

definition train_model ::
  "job_run \<Rightarrow> string \<Rightarrow> string \<Rightarrow> string \<Rightarrow> session \<Rightarrow> (py_exc + bool) \<times> session" where
  "train_model env model_name script_name config_name s0 =
     (let s = s0\<lparr>runs := runs s0 + 1\<rparr> in
      case training_status s model_name of
        None \<Rightarrow> (Inl (KeyError model_name), s)
      | Some _ \<Rightarrow>
         (let s1 = set_status model_name running s;
              s2 = update_entry model_name (\<lambda>e. e\<lparr>start_time := Some (now_start env)\<rparr>) s1;
              finally = update_entry model_name (\<lambda>e. e\<lparr>end_time := Some (now_end env)\<rparr>)
          in case run_subprocess env model_name s2 of
               (Inr rc, s3) \<Rightarrow>
                 if rc = 0
                 then (Inr True, finally (set_status model_name completed s3))
                 else (Inr False,
                       finally (update_entry model_name
                          (\<lambda>e. e\<lparr>error := Some (''Process exited with code '' @ show_int rc)\<rparr>)
                          (set_status model_name failed s3)))
             | (Inl e, s3) \<Rightarrow>
                 if is_Exception e
                 then (Inr False,
                       finally (update_entry model_name (\<lambda>x. x\<lparr>error := Some (str_exc e)\<rparr>)
                          (set_status model_name failed s3)))
                 else (Inl e, finally s3)))"

text \<open>Lines 179-209.\<close>

definition model_configs :: "string \<rightharpoonup> string \<times> string" where
  "model_configs = map_of
     [(''drug_classifier'', (''train_drug_classifier.py'', ''drug_classifier_config.json'')),
      (''authenticity_verifier'', (''train_authenticity_verifier.py'', ''authenticity_config.json'')),
      (''pill_detector'', (''train_pill_detector.py'', ''pill_detection_config.json''))]"

fun train_all_loop ::
  "(nat \<Rightarrow> job_run) \<Rightarrow> string list \<Rightarrow> string list \<Rightarrow> string list \<Rightarrow> session
     \<Rightarrow> (py_exc + string list \<times> string list) \<times> session" where
  "train_all_loop world [] successful_models failed_models s =
     (Inr (successful_models, failed_models), s)"
| "train_all_loop world (model_name # rest) successful_models failed_models s =
     (case model_configs model_name of
        None \<Rightarrow> train_all_loop world rest successful_models (failed_models @ [model_name]) s
      | Some (script_name, config_name) \<Rightarrow>
          (case train_model (world (runs s)) model_name script_name config_name s of
             (Inl e, s') \<Rightarrow> (Inl e, s')
           | (Inr success, s') \<Rightarrow>
               if success
               then train_all_loop world rest (successful_models @ [model_name]) failed_models s'
               else train_all_loop world rest successful_models (failed_models @ [model_name]) s'))"

definition requested_models :: "string list option \<Rightarrow> string list" where
  "requested_models models_to_train =
     (case models_to_train of
        None \<Rightarrow> [''drug_classifier'', ''authenticity_verifier'', ''pill_detector'']
      | Some ms \<Rightarrow> ms)"

definition train_all_models ::
  "(nat \<Rightarrow> job_run) \<Rightarrow> string list option \<Rightarrow> session
     \<Rightarrow> (py_exc + string list \<times> string list) \<times> session" where
  "train_all_models world models_to_train s =
     train_all_loop world (requested_models models_to_train) [] [] s"


subsection \<open>Vocabulary for the properties\<close>

text \<open>
  The first exception raised inside the \<open>try\<close> of a run, whether a run raises only what
  \<open>except Exception\<close> catches, and what a run leaves in the job's entry.
\<close>

definition raised_in_try :: "job_run \<Rightarrow> py_exc option" where
  "raised_in_try env =
     (case mkdir_raises env of Some e \<Rightarrow> Some e | None \<Rightarrow>
      (case popen_raises env of Some e \<Rightarrow> Some e | None \<Rightarrow>
       (case open_raises env of Some e \<Rightarrow> Some e | None \<Rightarrow> stream_raises env)))"

definition caught_only :: "job_run \<Rightarrow> bool" where
  "caught_only env = (case raised_in_try env of None \<Rightarrow> True | Some e \<Rightarrow> is_Exception e)"

fun terminal :: "job_status \<Rightarrow> bool" where
  "terminal completed = True"
| "terminal failed = True"
| "terminal pending = False"
| "terminal running = False"

definition known_keys :: "session \<Rightarrow> bool" where
  "known_keys s = (dom model_configs \<subseteq> dom (training_status s))"

definition status_sequence :: "string \<Rightarrow> session \<Rightarrow> job_status list" where
  "status_sequence model_name s = map snd (filter (\<lambda>w. fst w = model_name) (history s))"

fun no_reentry :: "job_status list \<Rightarrow> bool" where
  "no_reentry [] = True"
| "no_reentry (st # later) =
     ((if terminal st then list_all terminal later else True) \<and> no_reentry later)"

definition final_status :: "job_run \<Rightarrow> job_status" where
  "final_status env =
     (case raised_in_try env of
        None \<Rightarrow> if returncode env = 0 then completed else failed
      | Some e \<Rightarrow> if is_Exception e then failed else running)"

definition final_error :: "job_run \<Rightarrow> string option \<Rightarrow> string option" where
  "final_error env old =
     (case raised_in_try env of
        None \<Rightarrow> if returncode env = 0 then old
                else Some (''Process exited with code '' @ show_int (returncode env))
      | Some e \<Rightarrow> if is_Exception e then Some (str_exc e) else old)"

definition final_result :: "job_run \<Rightarrow> py_exc + bool" where
  "final_result env =
     (case raised_in_try env of
        None \<Rightarrow> Inr (returncode env = 0)
      | Some e \<Rightarrow> if is_Exception e then Inr False else Inl e)"

definition terminal_entry :: "session \<Rightarrow> string \<Rightarrow> bool" where
  "terminal_entry s model_name =
     (case training_status s model_name of
        None \<Rightarrow> False
      | Some e \<Rightarrow> terminal (status e) \<and> end_time e \<noteq> None)"

definition succeeded :: "job_run \<Rightarrow> bool" where
  "succeeded env = (raised_in_try env = None \<and> returncode env = 0)"

definition status_of :: "session \<Rightarrow> string \<Rightarrow> job_status option" where
  "status_of s model_name = map_option status (training_status s model_name)"

definition loop_post ::
  "session \<Rightarrow> string list \<Rightarrow> session \<Rightarrow> string list \<Rightarrow> string list \<Rightarrow> bool" where
  "loop_post s ms s' ok' bad' =
     (known_keys s'
      \<and> mset ok' + mset bad' = mset ms
      \<and> (\<forall>m \<in> set ms. model_configs m = None \<longrightarrow> m \<in> set bad')
      \<and> (\<forall>m \<in> set ok'. model_configs m \<noteq> None)
      \<and> runs s' = runs s + length (filter (\<lambda>m. model_configs m \<noteq> None) ms)
      \<and> (\<forall>m. m \<notin> set ms \<or> model_configs m = None \<longrightarrow> training_status s' m = training_status s m)
      \<and> (\<forall>m. terminal_entry s m \<longrightarrow> terminal_entry s' m)
      \<and> (\<forall>m \<in> set ms. model_configs m \<noteq> None \<longrightarrow> terminal_entry s' m)
      \<and> (distinct ms \<longrightarrow>
            (\<forall>m \<in> set ok'. status_of s' m = Some completed)
          \<and> (\<forall>m \<in> set bad'. model_configs m \<noteq> None \<longrightarrow> status_of s' m = Some failed)))"

definition writes :: "string \<Rightarrow> (string \<times> job_status) list \<Rightarrow> job_status list" where
  "writes model_name h = map snd (filter (\<lambda>w. fst w = model_name) h)"

definition lifecycles :: "job_status list set" where
  "lifecycles = {[], [running], [running, completed], [running, failed]}"

text \<open>
  An example environment, used to evaluate the model on concrete inputs: one line of output,
  \<open>Popen\<close> raising \<open>exc\<close> if given, and exit code \<open>rc\<close>.
\<close>

definition sample_run :: "py_exc option \<Rightarrow> int \<Rightarrow> job_run" where
  "sample_run exc rc =
     \<lparr>now_start = ''2024-01-01T10:00:00'', mkdir_raises = None, popen_raises = exc,
      open_raises = None,
      readlines = [(''epoch 1 done'' @ [CHR 0x0A], ''2024-01-01T10:00:01'')],
      stream_raises = None, returncode = rc, now_end = ''2024-01-01T10:05:00''\<rparr>"

chapter \<open>Properties\<close>

section \<open>Pair Sampler\<close>

lemma same_pool_pairs_skip:
  "length pool < 2 \<Longrightarrow> same_pool_pairs rnd pool lbl n st = st"
proof (induction n)
  case 0
  then show ?case by simp
next
  case (Suc n)
  obtain ps ls k where st: "st = (ps, ls, k)" by (cases st)
  from Suc show ?case unfolding st by auto
qed

lemma same_pool_pairs_full:
  "length pool \<ge> 2 \<Longrightarrow>
   \<exists>ps' k'. same_pool_pairs rnd pool lbl n (ps, ls, k) = (ps @ ps', ls @ replicate n lbl, k')
      \<and> length ps' = n"
proof (induction n arbitrary: ps ls k)
  case 0
  then show ?case by simp
next
  case (Suc n)
  obtain a b where ab: "random_sample2 (rnd k) (rnd (k + 1)) pool = (a, b)"
    by (cases "random_sample2 (rnd k) (rnd (k + 1)) pool")
  from Suc.IH [OF Suc.prems, of "ps @ [[a, b]]" "ls @ [lbl]" "k + 2"]
  obtain ps' k' where
    step: "same_pool_pairs rnd pool lbl n (ps @ [[a, b]], ls @ [lbl], k + 2) =
             ((ps @ [[a, b]]) @ ps', (ls @ [lbl]) @ replicate n lbl, k')"
    and len: "length ps' = n"
    by blast
  have "same_pool_pairs rnd pool lbl (Suc n) (ps, ls, k) =
          (ps @ ([a, b] # ps'), ls @ replicate (Suc n) lbl, k')"
    using Suc.prems ab step by (simp add: replicate_app_Cons_same)
  with len show ?case
    by (intro exI [of _ "[a, b] # ps'"] exI [of _ k']) simp
qed

lemma same_pool_pairs_shape:
  "\<exists>ps' k'. same_pool_pairs rnd pool lbl n (ps, ls, k) =
      (ps @ ps', ls @ replicate (if length pool \<ge> 2 then n else 0) lbl, k')
      \<and> length ps' = (if length pool \<ge> 2 then n else 0)"
proof (cases "length pool \<ge> 2")
  case True
  with same_pool_pairs_full [OF True, of rnd lbl n ps ls k] show ?thesis by simp
next
  case False
  then have "same_pool_pairs rnd pool lbl n (ps, ls, k) = (ps, ls, k)"
    by (simp add: same_pool_pairs_skip)
  with False show ?thesis by simp
qed

lemma cross_pool_pairs_skip:
  "\<not> (length au > 0 \<and> length co > 0) \<Longrightarrow> cross_pool_pairs rnd au co n st = st"
proof (induction n)
  case 0
  then show ?case by simp
next
  case (Suc n)
  obtain ps ls k where st: "st = (ps, ls, k)" by (cases st)
  from Suc show ?case unfolding st by auto
qed

lemma cross_pool_pairs_full:
  "length au > 0 \<and> length co > 0 \<Longrightarrow>
   \<exists>ps' k'. cross_pool_pairs rnd au co n (ps, ls, k) = (ps @ ps', ls @ replicate n 0, k')
      \<and> length ps' = n"
proof (induction n arbitrary: ps ls k)
  case 0
  then show ?case by simp
next
  case (Suc n)
  define p where "p = [random_choice (rnd k) au, random_choice (rnd (k + 1)) co]"
  from Suc.IH [OF Suc.prems, of "ps @ [p]" "ls @ [0]" "k + 2"]
  obtain ps' k' where
    step: "cross_pool_pairs rnd au co n (ps @ [p], ls @ [0], k + 2) =
             ((ps @ [p]) @ ps', (ls @ [0]) @ replicate n 0, k')"
    and len: "length ps' = n"
    by blast
  have "cross_pool_pairs rnd au co (Suc n) (ps, ls, k) =
          (ps @ (p # ps'), ls @ replicate (Suc n) 0, k')"
    using Suc.prems step by (simp add: p_def Let_def replicate_app_Cons_same)
  with len show ?case
    by (intro exI [of _ "p # ps'"] exI [of _ k']) simp
qed

lemma cross_pool_pairs_shape:
  "\<exists>ps' k'. cross_pool_pairs rnd au co n (ps, ls, k) =
      (ps @ ps', ls @ replicate (if length au > 0 \<and> length co > 0 then n else 0) 0, k')
      \<and> length ps' = (if length au > 0 \<and> length co > 0 then n else 0)"
proof (cases "length au > 0 \<and> length co > 0")
  case True
  with cross_pool_pairs_full [OF True, of rnd n ps ls k] show ?thesis by simp
next
  case False
  then have "cross_pool_pairs rnd au co n (ps, ls, k) = (ps, ls, k)"
    by (rule cross_pool_pairs_skip)
  with False show ?thesis by auto
qed

lemma create_siamese_pairs_shape:
  "\<exists>ps. create_siamese_pairs rnd au co n =
      (ps, replicate (batch_same au n) 1 @ replicate (batch_cross au co n) 0
             @ replicate (batch_same co n) 0)
      \<and> length ps = batch_same au n + batch_cross au co n + batch_same co n"
proof -
  obtain p1 k1 where
    s1: "same_pool_pairs rnd au 1 (nat (n div 4)) ([], [], 0) =
           ([] @ p1, [] @ replicate (batch_same au n) 1, k1)"
    and l1: "length p1 = batch_same au n"
    using same_pool_pairs_shape [of rnd au 1 "nat (n div 4)" "[]" "[]" 0]
    unfolding batch_same_def by blast
  obtain p2 k2 where
    s2: "cross_pool_pairs rnd au co (nat (n div 2)) (p1, replicate (batch_same au n) 1, k1) =
           (p1 @ p2, replicate (batch_same au n) 1 @ replicate (batch_cross au co n) 0, k2)"
    and l2: "length p2 = batch_cross au co n"
    using cross_pool_pairs_shape [of rnd au co "nat (n div 2)" p1 "replicate (batch_same au n) 1" k1]
    unfolding batch_cross_def by blast
  obtain p3 k3 where
    s3: "same_pool_pairs rnd co 0 (nat (n div 4))
           (p1 @ p2, replicate (batch_same au n) 1 @ replicate (batch_cross au co n) 0, k2) =
           ((p1 @ p2) @ p3,
            (replicate (batch_same au n) 1 @ replicate (batch_cross au co n) 0)
              @ replicate (batch_same co n) 0, k3)"
    and l3: "length p3 = batch_same co n"
    using same_pool_pairs_shape [of rnd co 0 "nat (n div 4)" "p1 @ p2"
        "replicate (batch_same au n) 1 @ replicate (batch_cross au co n) 0" k2]
    unfolding batch_same_def by blast
  have "create_siamese_pairs rnd au co n =
          ((p1 @ p2) @ p3,
           replicate (batch_same au n) 1 @ replicate (batch_cross au co n) 0
             @ replicate (batch_same co n) 0)"
    using s1 s2 s3 by (simp add: create_siamese_pairs_def)
  with l1 l2 l3 show ?thesis by simp
qed

text \<open>
  Claim C5, as the code has it. For every random source, both pools and every \<open>num_pairs\<close>:
  the pairs and labels lists have the same length; the labels are \<open>num_pairs // 4\<close> ones
  (none when the authentic pool has fewer than 2 items), then \<open>num_pairs // 2\<close> zeros (none
  when either pool is empty), then \<open>num_pairs // 4\<close> zeros (none when the counterfeit pool has
  fewer than 2 items), so every label is 0 or 1; with an empty counterfeit pool only label-1
  pairs are produced. The bound \<open>len(pairs) \<le> num_pairs\<close> and the exact count
  \<open>num_pairs // 4\<close> hold for \<open>num_pairs \<ge> 0\<close>: a negative \<open>num_pairs\<close> makes each
  \<open>range\<close> empty and the result has length 0, which is above \<open>num_pairs\<close>.
\<close>

theorem create_siamese_pairs_counts:
  fixes rnd :: "nat \<Rightarrow> nat" and authentic counterfeit :: "'a list" and num_pairs :: int
  defines "res \<equiv> create_siamese_pairs rnd authentic counterfeit num_pairs"
  shows "length (fst res) = length (snd res)
    \<and> snd res = replicate (batch_same authentic num_pairs) 1
                 @ replicate (batch_cross authentic counterfeit num_pairs) 0
                 @ replicate (batch_same counterfeit num_pairs) 0
    \<and> set (snd res) \<subseteq> {0, 1}
    \<and> (0 \<le> num_pairs \<longrightarrow> int (length (fst res)) \<le> num_pairs)
    \<and> (counterfeit = [] \<longrightarrow> snd res = replicate (batch_same authentic num_pairs) 1)
    \<and> (counterfeit = [] \<and> length authentic \<ge> 2 \<and> 0 \<le> num_pairs
          \<longrightarrow> int (length (fst res)) = num_pairs div 4)"
proof -
  obtain ps where
    res: "res = (ps, replicate (batch_same authentic num_pairs) 1
                   @ replicate (batch_cross authentic counterfeit num_pairs) 0
                   @ replicate (batch_same counterfeit num_pairs) 0)"
    and len: "length ps = batch_same authentic num_pairs
                + batch_cross authentic counterfeit num_pairs
                + batch_same counterfeit num_pairs"
    using create_siamese_pairs_shape [of rnd authentic counterfeit num_pairs]
    unfolding res_def by blast
  have bound: "int (length ps) \<le> num_pairs" if "0 \<le> num_pairs"
  proof -
    have "int (length ps) \<le> num_pairs div 4 + num_pairs div 2 + num_pairs div 4"
      using that len by (simp add: batch_same_def batch_cross_def)
    also have "\<dots> \<le> num_pairs" by presburger
    finally show ?thesis .
  qed
  have empty: "batch_cross authentic counterfeit num_pairs = 0
      \<and> batch_same counterfeit num_pairs = 0" if "counterfeit = []"
    using that by (simp add: batch_same_def batch_cross_def)
  have exact: "int (length ps) = num_pairs div 4"
    if "counterfeit = []" "length authentic \<ge> 2" "0 \<le> num_pairs"
    using that len empty by (simp add: batch_same_def)
  show ?thesis
    using res len bound empty exact by auto
qed

theorem create_siamese_pairs_counts_witness:
  "length (fst (create_siamese_pairs (\<lambda>i. i) [''a1'', ''a2'', ''a3''] [] 9)) = 2
   \<and> snd (create_siamese_pairs (\<lambda>i. i) [''a1'', ''a2'', ''a3''] [] 9) = [1, 1]
   \<and> (0::int) \<le> 9 \<and> ([]::string list) = [] \<and> length [''a1'', ''a2'', ''a3''] \<ge> 2"
  using create_siamese_pairs_counts [of "\<lambda>i. i" "[''a1'', ''a2'', ''a3'']" "[]" 9]
  by (simp add: batch_same_def batch_cross_def numeral_2_eq_2)

theorem create_siamese_pairs_negative_counterexample:
  "create_siamese_pairs (\<lambda>i. i) [''a1'', ''a2''] [''c1'', ''c2''] (- 1) = ([], [])
   \<and> \<not> int (length (fst (create_siamese_pairs (\<lambda>i. i) [''a1'', ''a2''] [''c1'', ''c2''] (- 1))))
         \<le> - 1"
  by (simp add: create_siamese_pairs_def)

section \<open>Partition Engine\<close>

subsection \<open>Slices with non-negative bounds\<close>











section \<open>Prerequisite Checker\<close>

lemma first_missing_append:
  "first_missing e (xs @ ys) =
     (case first_missing e xs of Some p \<Rightarrow> Some p | None \<Rightarrow> first_missing e ys)"
  by (induction xs) simp_all

lemma first_missing_None: "first_missing e xs = None \<longleftrightarrow> (\<forall>p \<in> set xs. e p)"
  by (induction xs) simp_all

lemma first_missing_Some: "first_missing e xs = Some p \<Longrightarrow> p \<in> set xs \<and> \<not> e p"
  by (induction xs) (auto split: if_splits)

text \<open>
  Claim C6, as the code has it. When every required item exists (the directories
  \<open>training/scripts\<close>, \<open>training/configs\<close> and \<open>data\<close>, the three scripts and the three
  configs) the check returns true with no error logged, and each missing data subdirectory
  (\<open>data/pharmaceutical_images/authentic\<close>, \<open>.../counterfeit\<close>) only adds its two
  warnings. When some required item is missing the check returns false and logs exactly one
  error, for the first missing item in check order, and no warning. The \<open>data\<close> directory
  itself is among the required directories, so its absence is fatal.
\<close>

theorem check_prerequisites_result:
  defines "res \<equiv> \<lambda>path_exists proj_root. check_prerequisites path_exists proj_root"
  shows "((\<forall>p \<in> set (required_paths proj_root). path_exists p) \<longrightarrow>
            fst (res path_exists proj_root) = True
          \<and> errors_logged (res path_exists proj_root) = []
          \<and> warnings_logged (res path_exists proj_root)
               = map snd (concat (map (data_warnings path_exists) (data_dirs proj_root))))
       \<and> ((\<exists>p \<in> set (required_paths proj_root). \<not> path_exists p) \<longrightarrow>
            fst (res path_exists proj_root) = False
          \<and> (\<exists>p msg. first_missing path_exists (required_paths proj_root) = Some p
                \<and> errors_logged (res path_exists proj_root) = [msg @ str_path p])
          \<and> warnings_logged (res path_exists proj_root) = [])"
proof -
  have w: "filter (\<lambda>r. fst r = ERROR) (data_warnings path_exists d) = []"
    "filter (\<lambda>r. fst r = WARNING) (data_warnings path_exists d) = data_warnings path_exists d" for d
    by (simp_all add: data_warnings_def)
  have ok: "fst (res path_exists proj_root) = True
          \<and> errors_logged (res path_exists proj_root) = []
          \<and> warnings_logged (res path_exists proj_root)
               = map snd (concat (map (data_warnings path_exists) (data_dirs proj_root)))"
    if "\<forall>p \<in> set (required_paths proj_root). path_exists p"
  proof -
    from that have "first_missing path_exists (required_dirs proj_root) = None"
      "first_missing path_exists (required_scripts proj_root) = None"
      "first_missing path_exists (required_configs proj_root) = None"
      by (simp_all add: first_missing_None required_paths_def)
    then show ?thesis
      by (simp add: res_def check_prerequisites_def errors_logged_def warnings_logged_def
          data_dirs_def w)
  qed
  have bad: "fst (res path_exists proj_root) = False
          \<and> (\<exists>p msg. first_missing path_exists (required_paths proj_root) = Some p
                \<and> errors_logged (res path_exists proj_root) = [msg @ str_path p])
          \<and> warnings_logged (res path_exists proj_root) = []"
    if "\<exists>p \<in> set (required_paths proj_root). \<not> path_exists p"
  proof -
    from that obtain p where p: "first_missing path_exists (required_paths proj_root) = Some p"
      using first_missing_None [of path_exists "required_paths proj_root"] by auto
    show ?thesis
    proof (cases "first_missing path_exists (required_dirs proj_root)")
      case (Some d)
      with p have "d = p" by (simp add: required_paths_def first_missing_append)
      with Some p show ?thesis
        by (simp add: res_def check_prerequisites_def errors_logged_def warnings_logged_def)
    next
      case None
      note nd = None
      show ?thesis
      proof (cases "first_missing path_exists (required_scripts proj_root)")
        case (Some d)
        with p nd have "d = p" by (simp add: required_paths_def first_missing_append)
        with Some p nd show ?thesis
          by (simp add: res_def check_prerequisites_def errors_logged_def warnings_logged_def)
      next
        case None
        with p nd have c: "first_missing path_exists (required_configs proj_root) = Some p"
          by (simp add: required_paths_def first_missing_append)
        with None p nd show ?thesis
          by (simp add: res_def check_prerequisites_def errors_logged_def warnings_logged_def)
      qed
    qed
  qed
  from ok bad show ?thesis by blast
qed

theorem check_prerequisites_result_witness:
  "list_all (\<lambda>p. p \<notin> set (data_dirs [''proj''])) (required_paths [''proj''])
   \<and> check_prerequisites (\<lambda>p. p \<notin> set (data_dirs [''proj''])) [''proj'']
       = (True,
          [(INFO, ''Checking training prerequisites...''),
           (WARNING, ''Data directory missing: proj/data/pharmaceutical_images/authentic''),
           (WARNING, ''Training may fail without proper data setup''),
           (WARNING, ''Data directory missing: proj/data/pharmaceutical_images/counterfeit''),
           (WARNING, ''Training may fail without proper data setup''),
           (INFO, [CHR 0xE2, CHR 0x9C, CHR 0x85] @ '' Prerequisites check completed'')])
   \<and> list_ex (\<lambda>p. p = configs_dir [''proj'']) (required_paths [''proj''])
   \<and> check_prerequisites (\<lambda>p. p \<noteq> configs_dir [''proj'']) [''proj'']
       = (False,
          [(INFO, ''Checking training prerequisites...''),
           (ERROR, ''Required directory missing: proj/training/configs'')])"
  using check_prerequisites_result [of "[''proj'']" "\<lambda>p. p \<notin> set (data_dirs [''proj''])"]
    check_prerequisites_result [of "[''proj'']" "\<lambda>p. p \<noteq> configs_dir [''proj'']"]
  by (simp add: check_prerequisites_def required_paths_def required_dirs_def
      required_scripts_def required_configs_def data_dirs_def data_warnings_def
      scripts_dir_def configs_dir_def data_dir_def)

theorem check_prerequisites_data_dir_counterexample:
  "list_all (\<lambda>p. p \<noteq> data_dir [''proj''] \<and> p \<notin> set (data_dirs [''proj'']))
      (scripts_dir [''proj''] # configs_dir [''proj'']
         # required_scripts [''proj''] @ required_configs [''proj''])
   \<and> check_prerequisites (\<lambda>p. p \<noteq> data_dir [''proj''] \<and> p \<notin> set (data_dirs [''proj'']))
        [''proj'']
       = (False,
          [(INFO, ''Checking training prerequisites...''),
           (ERROR, ''Required directory missing: proj/data'')])
   \<and> length (required_paths [''proj'']) = 9
   \<and> errors_logged (check_prerequisites (\<lambda>p. False) [''proj''])
       = [''Required directory missing: proj/training/scripts'']"
  by (simp add: check_prerequisites_def required_paths_def required_dirs_def
      required_scripts_def required_configs_def data_dirs_def data_warnings_def
      scripts_dir_def configs_dir_def data_dir_def errors_logged_def)

section \<open>Job Runner and Orchestrator\<close>

lemma run_subprocess_frame:
  "training_status (snd (run_subprocess env m s)) = training_status s
   \<and> history (snd (run_subprocess env m s)) = history s
   \<and> runs (snd (run_subprocess env m s)) = runs s
   \<and> project_root (snd (run_subprocess env m s)) = project_root s"
  by (simp add: run_subprocess_def Let_def split: option.splits)

lemma run_subprocess_result:
  "fst (run_subprocess env m s) =
     (case raised_in_try env of Some e \<Rightarrow> Inl e | None \<Rightarrow> Inr (returncode env))"
  by (simp add: run_subprocess_def raised_in_try_def Let_def split: option.splits)


lemma train_model_cases:
  assumes "training_status s m = Some e0"
    and "run_subprocess env m
           (update_entry m (\<lambda>e. e\<lparr>start_time := Some (now_start env)\<rparr>)
              (set_status m running (s\<lparr>runs := runs s + 1\<rparr>))) = (r, s3)"
  shows "train_model env m sc cf s =
     (case r of
        Inr rc \<Rightarrow>
          if rc = 0
          then (Inr True, update_entry m (\<lambda>e. e\<lparr>end_time := Some (now_end env)\<rparr>)
                  (set_status m completed s3))
          else (Inr False, update_entry m (\<lambda>e. e\<lparr>end_time := Some (now_end env)\<rparr>)
                  (update_entry m
                     (\<lambda>e. e\<lparr>error := Some (''Process exited with code '' @ show_int rc)\<rparr>)
                     (set_status m failed s3)))
      | Inl e \<Rightarrow>
          if is_Exception e
          then (Inr False, update_entry m (\<lambda>e. e\<lparr>end_time := Some (now_end env)\<rparr>)
                  (update_entry m (\<lambda>x. x\<lparr>error := Some (str_exc e)\<rparr>)
                     (set_status m failed s3)))
          else (Inl e, update_entry m (\<lambda>e. e\<lparr>end_time := Some (now_end env)\<rparr>) s3))"
  using assms unfolding train_model_def by (simp add: Let_def)

lemma train_model_known:
  assumes "training_status s m = Some e0"
  shows "fst (train_model env m sc cf s) = final_result env"
    and "training_status (snd (train_model env m sc cf s)) =
           (training_status s)(m \<mapsto> \<lparr>status = final_status env,
              start_time = Some (now_start env), end_time = Some (now_end env),
              error = final_error env (error e0)\<rparr>)"
    and "history (snd (train_model env m sc cf s)) =
           history s @ (m, running) # (if final_status env = running then [] else [(m, final_status env)])"
    and "runs (snd (train_model env m sc cf s)) = runs s + 1"
    and "project_root (snd (train_model env m sc cf s)) = project_root s"
proof -
  define s2 where "s2 = update_entry m (\<lambda>e. e\<lparr>start_time := Some (now_start env)\<rparr>)
                          (set_status m running (s\<lparr>runs := runs s + 1\<rparr>))"
  obtain r s3 where rs: "run_subprocess env m s2 = (r, s3)"
    by (cases "run_subprocess env m s2")
  have ts2: "training_status s2 = (training_status s)(m \<mapsto> e0\<lparr>status := running,
              start_time := Some (now_start env)\<rparr>)"
    using assms by (simp add: s2_def update_entry_def set_status_def)
  have h2: "history s2 = history s @ [(m, running)]"
    and r2: "runs s2 = runs s + 1" and p2: "project_root s2 = project_root s"
    using assms by (simp_all add: s2_def update_entry_def set_status_def)
  have fr: "training_status s3 = training_status s2" "history s3 = history s2"
    "runs s3 = runs s2" "project_root s3 = project_root s2"
    using run_subprocess_frame [of env m s2] rs by simp_all
  have res: "r = (case raised_in_try env of Some e \<Rightarrow> Inl e | None \<Rightarrow> Inr (returncode env))"
    using run_subprocess_result [of env m s2] rs by simp
  note tm = train_model_cases [OF assms rs [unfolded s2_def], of sc cf]
  show "fst (train_model env m sc cf s) = final_result env"
    unfolding tm res by (simp add: final_result_def split: option.splits)
  show "training_status (snd (train_model env m sc cf s)) =
           (training_status s)(m \<mapsto> \<lparr>status = final_status env,
              start_time = Some (now_start env), end_time = Some (now_end env),
              error = final_error env (error e0)\<rparr>)"
    unfolding tm res using fr ts2
    by (cases e0)
       (simp add: final_status_def final_error_def update_entry_def set_status_def
         split: option.splits)
  show "history (snd (train_model env m sc cf s)) =
           history s @ (m, running) # (if final_status env = running then [] else [(m, final_status env)])"
    unfolding tm res using fr ts2 h2
    by (simp add: final_status_def update_entry_def set_status_def split: option.splits)
  show "runs (snd (train_model env m sc cf s)) = runs s + 1"
    unfolding tm res using fr ts2 r2
    by (simp add: update_entry_def set_status_def split: option.splits)
  show "project_root (snd (train_model env m sc cf s)) = project_root s"
    unfolding tm res using fr ts2 p2
    by (simp add: update_entry_def set_status_def split: option.splits)
qed

lemma train_model_unknown:
  "training_status s m = None \<Longrightarrow>
   train_model env m sc cf s = (Inl (KeyError m), s\<lparr>runs := runs s + 1\<rparr>)"
  by (simp add: train_model_def)


lemma final_status_caught: "caught_only env \<Longrightarrow> terminal (final_status env)"
  by (cases "raised_in_try env") (auto simp add: caught_only_def final_status_def)

lemma final_result_caught: "caught_only env \<Longrightarrow> final_result env = Inr (succeeded env)"
  by (cases "raised_in_try env") (auto simp add: caught_only_def final_result_def succeeded_def)

lemma model_configs_known:
  "model_configs m = Some sc \<Longrightarrow> known_keys s \<Longrightarrow> \<exists>e0. training_status s m = Some e0"
  unfolding known_keys_def by blast

lemma train_model_step:
  fixes sc cf :: string
  assumes "caught_only env" and "training_status s m = Some e0"
  defines "s' \<equiv> snd (train_model env m sc cf s)"
  shows "train_model env m sc cf s = (Inr (succeeded env), s')"
    and "known_keys s \<Longrightarrow> known_keys s'"
    and "terminal_entry s' m"
    and "\<And>m'. m' \<noteq> m \<Longrightarrow> training_status s' m' = training_status s m'"
    and "runs s' = runs s + 1"
    and "status_of s' m = Some (if succeeded env then completed else failed)"
proof -
  note tm = train_model_known [OF assms(2), of env sc cf]
  show "train_model env m sc cf s = (Inr (succeeded env), s')"
    using tm(1) final_result_caught [OF assms(1)] unfolding s'_def
    by (metis prod.collapse)
  show "known_keys s'" if "known_keys s"
    using that unfolding known_keys_def s'_def tm(2) by auto
  show "terminal_entry s' m"
    unfolding terminal_entry_def s'_def tm(2)
    using final_status_caught [OF assms(1)] by simp
  show "training_status s' m' = training_status s m'" if "m' \<noteq> m" for m'
    using that unfolding s'_def tm(2) by simp
  show "runs s' = runs s + 1"
    unfolding s'_def by (rule tm(4))
  show "status_of s' m = Some (if succeeded env then completed else failed)"
    unfolding status_of_def s'_def tm(2) using assms(1)
    by (cases "raised_in_try env")
       (auto simp add: final_status_def succeeded_def caught_only_def)
qed

lemma terminal_entry_step:
  assumes "caught_only env" and "training_status s m = Some e0" and "terminal_entry s m'"
  shows "terminal_entry (snd (train_model env m sc cf s)) m'"
proof (cases "m' = m")
  case True
  then show ?thesis using train_model_step(3) [OF assms(1,2), where sc = sc and cf = cf] by simp
next
  case False
  then show ?thesis
    using train_model_step(4) [OF assms(1,2), where sc = sc and cf = cf and m' = m'] assms(3)
    by (simp add: terminal_entry_def)
qed

lemma loop_post_Nil: "known_keys s \<Longrightarrow> loop_post s [] s [] []"
  by (simp add: loop_post_def)

lemma loop_post_unknown:
  assumes "model_configs m = None" and "loop_post s ms s' ok' bad'"
  shows "loop_post s (m # ms) s' ok' (m # bad')"
  using assms unfolding loop_post_def by auto

lemma loop_post_known:
  assumes cfg: "model_configs m \<noteq> None"
    and k1: "known_keys s1"
    and r1: "runs s1 = runs s + 1"
    and fr: "\<And>m'. m' \<noteq> m \<Longrightarrow> training_status s1 m' = training_status s m'"
    and te: "terminal_entry s1 m"
    and st: "status_of s1 m = Some (if b then completed else failed)"
    and post: "loop_post s1 ms s' ok' bad'"
  shows "loop_post s (m # ms) s' (if b then m # ok' else ok') (if b then bad' else m # bad')"
proof -
  have p: "known_keys s'" "mset ok' + mset bad' = mset ms"
    "\<forall>m \<in> set ms. model_configs m = None \<longrightarrow> m \<in> set bad'"
    "\<forall>m \<in> set ok'. model_configs m \<noteq> None"
    "runs s' = runs s1 + length (filter (\<lambda>m. model_configs m \<noteq> None) ms)"
    "\<forall>m. m \<notin> set ms \<or> model_configs m = None \<longrightarrow> training_status s' m = training_status s1 m"
    "\<forall>m. terminal_entry s1 m \<longrightarrow> terminal_entry s' m"
    "\<forall>m \<in> set ms. model_configs m \<noteq> None \<longrightarrow> terminal_entry s' m"
    "distinct ms \<longrightarrow>
            (\<forall>m \<in> set ok'. status_of s' m = Some completed)
          \<and> (\<forall>m \<in> set bad'. model_configs m \<noteq> None \<longrightarrow> status_of s' m = Some failed)"
    using post unfolding loop_post_def by blast+
  have c2: "mset (if b then m # ok' else ok') + mset (if b then bad' else m # bad') = mset (m # ms)"
    using p(2) by simp
  have c3: "\<forall>x \<in> set (m # ms). model_configs x = None \<longrightarrow> x \<in> set (if b then bad' else m # bad')"
    using p(3) cfg by auto
  have c4: "\<forall>x \<in> set (if b then m # ok' else ok'). model_configs x \<noteq> None"
    using p(4) cfg by auto
  have c5: "runs s' = runs s + length (filter (\<lambda>m. model_configs m \<noteq> None) (m # ms))"
    using p(5) r1 cfg by simp
  have c6: "\<forall>x. x \<notin> set (m # ms) \<or> model_configs x = None \<longrightarrow> training_status s' x = training_status s x"
  proof (intro allI impI)
    fix x
    assume h: "x \<notin> set (m # ms) \<or> model_configs x = None"
    then have "x \<noteq> m" using cfg by auto
    moreover from h have "x \<notin> set ms \<or> model_configs x = None" by auto
    ultimately show "training_status s' x = training_status s x"
      using p(6) fr by simp
  qed
  have te_pres: "terminal_entry s1 x" if "terminal_entry s x" for x
  proof (cases "x = m")
    case True
    then show ?thesis using te by simp
  next
    case False
    then show ?thesis using that fr [of x] by (simp add: terminal_entry_def)
  qed
  have c7: "\<forall>x. terminal_entry s x \<longrightarrow> terminal_entry s' x"
    using te_pres p(7) by blast
  have c8: "\<forall>x \<in> set (m # ms). model_configs x \<noteq> None \<longrightarrow> terminal_entry s' x"
    using p(7,8) te by auto
  have c9: "(\<forall>x \<in> set (if b then m # ok' else ok'). status_of s' x = Some completed)
          \<and> (\<forall>x \<in> set (if b then bad' else m # bad'). model_configs x \<noteq> None \<longrightarrow> status_of s' x = Some failed)"
    if d: "distinct (m # ms)"
  proof -
    from d have "m \<notin> set ms" and dms: "distinct ms" by simp_all
    then have "training_status s' m = training_status s1 m" using p(6) by simp
    then have "status_of s' m = Some (if b then completed else failed)"
      using st by (simp add: status_of_def)
    with p(9) dms show ?thesis by auto
  qed
  show ?thesis
    unfolding loop_post_def using p(1) c2 c3 c4 c5 c6 c7 c8 c9 by blast
qed

lemma train_all_loop_returns:
  assumes w: "\<forall>i. caught_only (w i)"
  shows "known_keys s \<Longrightarrow>
    \<exists>ok' bad' s'.
      train_all_loop w ms ok bad s = (Inr (ok @ ok', bad @ bad'), s') \<and> loop_post s ms s' ok' bad'"
proof (induction ms arbitrary: ok bad s)
  case Nil
  then show ?case by (simp add: loop_post_Nil)
next
  case (Cons m ms)
  show ?case
  proof (cases "model_configs m")
    case None
    from Cons.IH [OF Cons.prems, of ok "bad @ [m]"]
    obtain ok' bad' s' where
      run: "train_all_loop w ms ok (bad @ [m]) s = (Inr (ok @ ok', (bad @ [m]) @ bad'), s')"
      and post: "loop_post s ms s' ok' bad'"
      by blast
    have "train_all_loop w (m # ms) ok bad s = (Inr (ok @ ok', bad @ (m # bad')), s')"
      using None run by simp
    with loop_post_unknown [OF None post] show ?thesis by blast
  next
    case (Some cfg)
    obtain sc cf where cfg: "cfg = (sc, cf)" by (cases cfg)
    obtain e0 where e0: "training_status s m = Some e0"
      using model_configs_known [OF Some Cons.prems] by blast
    define s1 where "s1 = snd (train_model (w (runs s)) m sc cf s)"
    define b where "b = succeeded (w (runs s))"
    have c: "caught_only (w (runs s))" using w by simp
    note st = train_model_step [OF c e0, where sc = sc and cf = cf, folded s1_def b_def]
    have k1: "known_keys s1" using st(2) Cons.prems by simp
    from Cons.IH [OF k1, of "if b then ok @ [m] else ok" "if b then bad else bad @ [m]"]
    obtain ok' bad' s' where
      run: "train_all_loop w ms (if b then ok @ [m] else ok) (if b then bad else bad @ [m]) s1 =
              (Inr ((if b then ok @ [m] else ok) @ ok', (if b then bad else bad @ [m]) @ bad'), s')"
      and post: "loop_post s1 ms s' ok' bad'"
      by blast
    have cfg': "model_configs m \<noteq> None" using Some by simp
    note lp = loop_post_known [OF cfg' k1 st(5) st(4) st(3) st(6) post]
    have "train_all_loop w (m # ms) ok bad s =
            (Inr (ok @ (if b then m # ok' else ok'), bad @ (if b then bad' else m # bad')), s')"
      using Some cfg st(1) run by (cases b) simp_all
    with lp show ?thesis by blast
  qed
qed

lemma final_status_not_pending: "final_status env \<noteq> pending"
  by (cases "raised_in_try env") (auto simp add: final_status_def)

lemma train_model_history:
  "\<exists>h. history (snd (train_model env m sc cf s)) = history s @ h
       \<and> fst ` set h \<subseteq> {m} \<and> writes m h \<in> lifecycles"
proof (cases "training_status s m")
  case None
  then show ?thesis
    by (simp add: train_model_unknown writes_def lifecycles_def)
next
  case (Some e0)
  have "final_status env \<in> {running, completed, failed}"
    using final_status_not_pending [of env] by (cases "final_status env") auto
  then show ?thesis
    unfolding train_model_known(3) [OF Some]
    by (auto simp add: writes_def lifecycles_def)
qed

lemma writes_append: "writes m (h1 @ h2) = writes m h1 @ writes m h2"
  by (simp add: writes_def)

lemma writes_other: "m \<notin> fst ` set h \<Longrightarrow> writes m h = []"
  by (auto simp add: writes_def filter_empty_conv)

lemma train_all_loop_history:
  "distinct ms \<Longrightarrow>
   \<exists>h. history (snd (train_all_loop w ms ok bad s)) = history s @ h
       \<and> fst ` set h \<subseteq> set ms \<and> (\<forall>m. writes m h \<in> lifecycles)"
proof (induction ms arbitrary: ok bad s)
  case Nil
  then show ?case by (simp add: writes_def lifecycles_def)
next
  case (Cons m ms)
  from Cons.prems have notin: "m \<notin> set ms" and dms: "distinct ms" by simp_all
  show ?case
  proof (cases "model_configs m")
    case None
    from Cons.IH [OF dms, of ok "bad @ [m]" s]
    obtain h where "history (snd (train_all_loop w ms ok (bad @ [m]) s)) = history s @ h"
      "fst ` set h \<subseteq> set ms" "\<forall>m. writes m h \<in> lifecycles"
      by blast
    with None show ?thesis by (intro exI [of _ h]) auto
  next
    case (Some cfg)
    obtain sc cf where cfg: "cfg = (sc, cf)" by (cases cfg)
    obtain r s1 where tm: "train_model (w (runs s)) m sc cf s = (r, s1)"
      by (cases "train_model (w (runs s)) m sc cf s")
    obtain h1 where h1: "history s1 = history s @ h1" "fst ` set h1 \<subseteq> {m}"
      "writes m h1 \<in> lifecycles"
      using train_model_history [of "w (runs s)" m sc cf s] tm by auto
    have other1: "writes x h1 = []" if "x \<noteq> m" for x
      using that h1(2) by (intro writes_other) auto
    show ?thesis
    proof (cases r)
      case (Inl e)
      have "train_all_loop w (m # ms) ok bad s = (Inl e, s1)"
        using Some cfg tm Inl by simp
      moreover have "\<forall>x. writes x h1 \<in> lifecycles"
        using h1(3) other1 by (metis empty_iff insert_iff lifecycles_def)
      ultimately show ?thesis using h1 by (intro exI [of _ h1]) auto
    next
      case (Inr b)
      define ok1 where "ok1 = (if b then ok @ [m] else ok)"
      define bad1 where "bad1 = (if b then bad else bad @ [m])"
      have step: "train_all_loop w (m # ms) ok bad s = train_all_loop w ms ok1 bad1 s1"
        using Some cfg tm Inr by (simp add: ok1_def bad1_def)
      from Cons.IH [OF dms, of ok1 bad1 s1]
      obtain h2 where h2: "history (snd (train_all_loop w ms ok1 bad1 s1)) = history s1 @ h2"
        "fst ` set h2 \<subseteq> set ms" "\<forall>m. writes m h2 \<in> lifecycles"
        by blast
      have m2: "writes m h2 = []"
        using notin h2(2) by (intro writes_other) auto
      have all: "writes x (h1 @ h2) \<in> lifecycles" for x
      proof (cases "x = m")
        case True
        then show ?thesis using h1(3) m2 by (simp add: writes_append)
      next
        case False
        then show ?thesis using other1 h2(3) by (simp add: writes_append)
      qed
      have "history (snd (train_all_loop w (m # ms) ok bad s)) = history s @ (h1 @ h2)"
        using step h2(1) h1(1) by simp
      moreover have "fst ` set (h1 @ h2) \<subseteq> set (m # ms)"
        using h1(2) h2(2) by auto
      ultimately show ?thesis using all by blast
    qed
  qed
qed

lemma lifecycles_no_reentry: "xs \<in> lifecycles \<Longrightarrow> no_reentry (pending # xs)"
  by (auto simp add: lifecycles_def)

subsection \<open>Outcome classification\<close>



subsection \<open>The orchestration loop\<close>




text \<open>
  Claim C9. A requested name outside the registry is appended to the failed list and the
  loop goes on with the remaining names in an unchanged session, so \<open>train_model\<close> is not
  called for it. Over a whole call: every unknown requested name is in the failed list and
  not in the other, its (absent) status entry is untouched, and the number of \<open>train_model\<close>
  calls is the number of known requested names.
\<close>

theorem unknown_model_fails_immediately:
  "(model_configs m = None \<longrightarrow>
      train_all_loop w (m # rest) successful_models failed_models s
        = train_all_loop w rest successful_models (failed_models @ [m]) s)
   \<and> (known_keys s \<and> (\<forall>i. caught_only (w i)) \<longrightarrow>
        (\<exists>ok bad s'.
           train_all_models w models_to_train s = (Inr (ok, bad), s')
           \<and> (\<forall>m \<in> set (requested_models models_to_train). model_configs m = None \<longrightarrow>
                 m \<in> set bad \<and> m \<notin> set ok \<and> training_status s' m = training_status s m)
           \<and> runs s' = runs s
               + length (filter (\<lambda>m. model_configs m \<noteq> None) (requested_models models_to_train))))"
proof -
  have step: "model_configs m = None \<longrightarrow>
      train_all_loop w (m # rest) successful_models failed_models s
        = train_all_loop w rest successful_models (failed_models @ [m]) s"
    by simp
  have glob: "\<exists>ok bad s'.
           train_all_models w models_to_train s = (Inr (ok, bad), s')
           \<and> (\<forall>m \<in> set (requested_models models_to_train). model_configs m = None \<longrightarrow>
                 m \<in> set bad \<and> m \<notin> set ok \<and> training_status s' m = training_status s m)
           \<and> runs s' = runs s
               + length (filter (\<lambda>m. model_configs m \<noteq> None) (requested_models models_to_train))"
    if k: "known_keys s" and c: "\<forall>i. caught_only (w i)"
  proof -
    from train_all_loop_returns [OF c k, of "requested_models models_to_train" "[]" "[]"]
    obtain ok bad s' where
      run: "train_all_loop w (requested_models models_to_train) [] [] s = (Inr (ok, bad), s')"
      and post: "loop_post s (requested_models models_to_train) s' ok bad"
      by auto
    from post have "\<forall>m \<in> set (requested_models models_to_train). model_configs m = None \<longrightarrow>
                 m \<in> set bad \<and> m \<notin> set ok \<and> training_status s' m = training_status s m"
      unfolding loop_post_def by blast
    with run post show ?thesis
      unfolding train_all_models_def loop_post_def by blast
  qed
  from step glob show ?thesis by blast
qed

theorem unknown_model_fails_immediately_witness:
  "model_configs ''tablet_counter'' = None
   \<and> known_keys (new_session [''proj''] Map.empty)
   \<and> (\<forall>i. caught_only (sample_run None 0))
   \<and> train_all_models (\<lambda>i. sample_run None 0) (Some [''tablet_counter'', ''pill_detector''])
        (new_session [''proj''] Map.empty)
      = train_all_loop (\<lambda>i. sample_run None 0) [''pill_detector''] [] [''tablet_counter'']
          (new_session [''proj''] Map.empty)
   \<and> fst (train_all_models (\<lambda>i. sample_run None 0) (Some [''tablet_counter'', ''pill_detector''])
            (new_session [''proj''] Map.empty))
       = Inr ([''pill_detector''], [''tablet_counter''])
   \<and> runs (snd (train_all_models (\<lambda>i. sample_run None 0)
            (Some [''tablet_counter'', ''pill_detector'']) (new_session [''proj''] Map.empty))) = 1"
proof -
  have u: "model_configs ''tablet_counter'' = None"
    by (simp add: model_configs_def)
  have k: "known_keys (new_session [''proj''] Map.empty)"
    by (simp add: known_keys_def new_session_def model_configs_def)
  have c: "\<forall>i::nat. caught_only (sample_run None 0)"
    by (simp add: caught_only_def raised_in_try_def sample_run_def)
  have r: "fst (train_all_models (\<lambda>i. sample_run None 0) (Some [''tablet_counter'', ''pill_detector''])
            (new_session [''proj''] Map.empty))
       = Inr ([''pill_detector''], [''tablet_counter''])
    \<and> runs (snd (train_all_models (\<lambda>i. sample_run None 0)
            (Some [''tablet_counter'', ''pill_detector'']) (new_session [''proj''] Map.empty))) = 1"
    by (simp add: train_all_models_def requested_models_def model_configs_def train_model_def
        new_session_def set_status_def update_entry_def run_subprocess_def sample_run_def Let_def)
  show ?thesis
    using unknown_model_fails_immediately
        [of "''tablet_counter''" "\<lambda>i. sample_run None 0" "[''pill_detector'']" "[]" "[]"
            "new_session [''proj''] Map.empty" "Some [''tablet_counter'', ''pill_detector'']"]
      u k c r
    by (simp add: train_all_models_def requested_models_def)
qed

text \<open>
  Claim C10. When a run raises nothing outside \<open>Exception\<close>, \<open>train_model\<close> returns, the
  job's \<open>end_time\<close> is the clock reading of the \<open>finally\<close> clause and its status is
  \<open>completed\<close> or \<open>failed\<close>. Hence when \<open>train_all_models\<close> returns, every requested
  known job has a terminal status and an \<open>end_time\<close>; none is \<open>running\<close>.
\<close>

theorem jobs_end_terminal:
  fixes sc cf :: string
  shows "(training_status s m = Some e0 \<and> caught_only env \<longrightarrow>
      (\<exists>b s'. train_model env m sc cf s = (Inr b, s')
         \<and> map_option end_time (training_status s' m) = Some (Some (now_end env))
         \<and> (status_of s' m = Some completed \<or> status_of s' m = Some failed)))
   \<and> (known_keys s \<and> (\<forall>i. caught_only (w i)) \<longrightarrow>
      (\<exists>ok bad s'. train_all_models w models_to_train s = (Inr (ok, bad), s')
         \<and> (\<forall>m \<in> set (requested_models models_to_train). model_configs m \<noteq> None \<longrightarrow>
               terminal_entry s' m \<and> status_of s' m \<noteq> Some running)))"
proof -
  have one: "\<exists>b s'. train_model env m sc cf s = (Inr b, s')
         \<and> map_option end_time (training_status s' m) = Some (Some (now_end env))
         \<and> (status_of s' m = Some completed \<or> status_of s' m = Some failed)"
    if e0: "training_status s m = Some e0" and c: "caught_only env"
  proof -
    note st = train_model_step [OF c e0, where sc = sc and cf = cf]
    have "map_option end_time (training_status (snd (train_model env m sc cf s)) m)
            = Some (Some (now_end env))"
      unfolding train_model_known(2) [OF e0] by simp
    with st(1) st(6) show ?thesis by (cases "succeeded env") force+
  qed
  have all: "\<exists>ok bad s'. train_all_models w models_to_train s = (Inr (ok, bad), s')
         \<and> (\<forall>m \<in> set (requested_models models_to_train). model_configs m \<noteq> None \<longrightarrow>
               terminal_entry s' m \<and> status_of s' m \<noteq> Some running)"
    if k: "known_keys s" and c: "\<forall>i. caught_only (w i)"
  proof -
    from train_all_loop_returns [OF c k, of "requested_models models_to_train" "[]" "[]"]
    obtain ok bad s' where
      run: "train_all_loop w (requested_models models_to_train) [] [] s = (Inr (ok, bad), s')"
      and post: "loop_post s (requested_models models_to_train) s' ok bad"
      by auto
    have t: "\<forall>m \<in> set (requested_models models_to_train). model_configs m \<noteq> None \<longrightarrow>
               terminal_entry s' m"
      using post unfolding loop_post_def by blast
    have "status_of s' x \<noteq> Some running" if "terminal_entry s' x" for x
      using that by (auto simp add: terminal_entry_def status_of_def split: option.splits)
    with t run show ?thesis unfolding train_all_models_def by blast
  qed
  from one all show ?thesis by blast
qed

theorem jobs_end_terminal_witness:
  "training_status (new_session [''proj''] Map.empty) ''pill_detector''
      = Some \<lparr>status = pending, start_time = None, end_time = None, error = None\<rparr>
   \<and> caught_only (sample_run (Some (Exception ''No such file'')) 0)
   \<and> known_keys (new_session [''proj''] Map.empty)
   \<and> (\<forall>i. caught_only (sample_run (Some (Exception ''No such file'')) 0))
   \<and> (\<exists>s'. train_model (sample_run (Some (Exception ''No such file'')) 0) ''pill_detector''
              ''train_pill_detector.py'' ''pill_detection_config.json''
              (new_session [''proj''] Map.empty) = (Inr False, s')
            \<and> map_option end_time (training_status s' ''pill_detector'')
                 = Some (Some ''2024-01-01T10:05:00''))
   \<and> (\<exists>s'. train_all_models (\<lambda>i. sample_run (Some (Exception ''No such file'')) 0) None
              (new_session [''proj''] Map.empty)
             = (Inr ([], [''drug_classifier'', ''authenticity_verifier'', ''pill_detector'']), s')
            \<and> status_of s' ''drug_classifier'' = Some failed)"
proof -
  have e: "training_status (new_session [''proj''] Map.empty) ''pill_detector''
      = Some \<lparr>status = pending, start_time = None, end_time = None, error = None\<rparr>"
    by (simp add: new_session_def)
  have c: "caught_only (sample_run (Some (Exception ''No such file'')) 0)"
    by (simp add: caught_only_def raised_in_try_def sample_run_def)
  have k: "known_keys (new_session [''proj''] Map.empty)"
    by (simp add: known_keys_def new_session_def model_configs_def)
  have r1: "fst (train_model (sample_run (Some (Exception ''No such file'')) 0) ''pill_detector''
              ''train_pill_detector.py'' ''pill_detection_config.json''
              (new_session [''proj''] Map.empty)) = Inr False"
    by (simp add: train_model_def new_session_def set_status_def update_entry_def
        run_subprocess_def sample_run_def Let_def)
  have r2: "fst (train_all_models (\<lambda>i. sample_run (Some (Exception ''No such file'')) 0) None
              (new_session [''proj''] Map.empty))
             = Inr ([], [''drug_classifier'', ''authenticity_verifier'', ''pill_detector''])"
    by (simp add: train_all_models_def requested_models_def model_configs_def train_model_def
        new_session_def set_status_def update_entry_def run_subprocess_def sample_run_def Let_def)
  have r3: "status_of (snd (train_all_models (\<lambda>i. sample_run (Some (Exception ''No such file'')) 0)
              None (new_session [''proj''] Map.empty))) ''drug_classifier'' = Some failed"
    by (simp add: train_all_models_def requested_models_def model_configs_def train_model_def
        new_session_def set_status_def update_entry_def run_subprocess_def sample_run_def Let_def
        status_of_def)
  from jobs_end_terminal
    [of "new_session [''proj''] Map.empty" "''pill_detector''"
        "\<lparr>status = pending, start_time = None, end_time = None, error = None\<rparr>"
        "sample_run (Some (Exception ''No such file'')) 0"
        "''train_pill_detector.py''" "''pill_detection_config.json''"
        "\<lambda>i. sample_run (Some (Exception ''No such file'')) 0" None]
    e c k
  obtain b s1 where
    t1: "train_model (sample_run (Some (Exception ''No such file'')) 0) ''pill_detector''
              ''train_pill_detector.py'' ''pill_detection_config.json''
              (new_session [''proj''] Map.empty) = (Inr b, s1)"
    and t2: "map_option end_time (training_status s1 ''pill_detector'')
               = Some (Some (now_end (sample_run (Some (Exception ''No such file'')) 0)))"
    by auto
  from t1 r1 have b: "b = False" by simp
  have p1: "\<exists>s'. train_model (sample_run (Some (Exception ''No such file'')) 0) ''pill_detector''
              ''train_pill_detector.py'' ''pill_detection_config.json''
              (new_session [''proj''] Map.empty) = (Inr False, s')
            \<and> map_option end_time (training_status s' ''pill_detector'')
                 = Some (Some ''2024-01-01T10:05:00'')"
    using t1 t2 b by (intro exI [of _ s1]) (simp add: sample_run_def)
  have p2: "\<exists>s'. train_all_models (\<lambda>i. sample_run (Some (Exception ''No such file'')) 0) None
              (new_session [''proj''] Map.empty)
             = (Inr ([], [''drug_classifier'', ''authenticity_verifier'', ''pill_detector'']), s')
            \<and> status_of s' ''drug_classifier'' = Some failed"
    using r2 r3 by (metis prod.collapse)
  from e c k p1 p2 show ?thesis by blast
qed

subsection \<open>Status transitions\<close>

text \<open>
  Claim C7, for pairwise distinct requested names on a new orchestrator. The statuses
  assigned to a job during the call are nothing, or \<open>running\<close>, or \<open>running\<close> followed by
  one of \<open>completed\<close> and \<open>failed\<close>; starting from \<open>pending\<close>, no status follows a terminal
  one. Nothing in the loop rejects a repeated name: the second request runs the job again and
  sets a \<open>completed\<close> job back to \<open>running\<close>, see the counterexample.
\<close>

theorem status_transitions_monotonic:
  fixes w :: "nat \<Rightarrow> job_run" and proj :: path and fs :: "path \<rightharpoonup> string"
  assumes "distinct (requested_models models_to_train)"
  defines "s' \<equiv> snd (train_all_models w models_to_train (new_session proj fs))"
  shows "status_sequence m s' \<in> {[], [running], [running, completed], [running, failed]}
       \<and> no_reentry (pending # status_sequence m s')"
proof -
  from train_all_loop_history [OF assms(1), of w "[]" "[]" "new_session proj fs"]
  obtain h where h: "history s' = history (new_session proj fs) @ h"
    "\<forall>m. writes m h \<in> lifecycles"
    unfolding s'_def train_all_models_def by blast
  have "history s' = h" using h(1) by (simp add: new_session_def)
  then have "status_sequence m s' = writes m h"
    by (simp add: status_sequence_def writes_def)
  with h(2) have l: "status_sequence m s' \<in> lifecycles" by simp
  from l lifecycles_no_reentry [OF l] show ?thesis by (simp add: lifecycles_def)
qed

theorem status_transitions_monotonic_witness:
  "distinct (requested_models (Some [''pill_detector'', ''drug_classifier'']))
   \<and> status_sequence ''drug_classifier''
        (snd (train_all_models (\<lambda>i. sample_run None (if i = 0 then 0 else 3))
           (Some [''pill_detector'', ''drug_classifier'']) (new_session [''proj''] Map.empty)))
       = [running, failed]
   \<and> no_reentry [pending, running, failed]"
proof -
  have d: "distinct (requested_models (Some [''pill_detector'', ''drug_classifier'']))"
    by (simp add: requested_models_def)
  have r: "status_sequence ''drug_classifier''
        (snd (train_all_models (\<lambda>i. sample_run None (if i = 0 then 0 else 3))
           (Some [''pill_detector'', ''drug_classifier'']) (new_session [''proj''] Map.empty)))
       = [running, failed]"
    by (simp add: train_all_models_def requested_models_def model_configs_def train_model_def
        new_session_def set_status_def update_entry_def run_subprocess_def sample_run_def Let_def
        status_sequence_def)
  show ?thesis
    using status_transitions_monotonic [OF d, where m = "''drug_classifier''"
        and w = "\<lambda>i. sample_run None (if i = 0 then 0 else 3)" and proj = "[''proj'']"
        and fs = Map.empty] d r
    by simp
qed

theorem repeated_job_reenters_running_counterexample:
  "status_sequence ''drug_classifier''
     (snd (train_all_models (\<lambda>i. sample_run None 0)
        (Some [''drug_classifier'', ''drug_classifier'']) (new_session [''proj''] Map.empty)))
     = [running, completed, running, completed]
   \<and> \<not> no_reentry [pending, running, completed, running, completed]"
  by (simp add: train_all_models_def requested_models_def model_configs_def train_model_def
      new_session_def set_status_def update_entry_def run_subprocess_def sample_run_def Let_def
      status_sequence_def)

subsection \<open>The job log file\<close>




end
